theory Spec2Isabelle
  imports Complex_Main "HOL-Library.Char_ord" "HOL-Library.List_Lexorder"
begin

section \<open>Dates and date ranges\<close>

text \<open>
  The cache of \<^verbatim>\<open>scripts/cache.py\<close> handles calendar days as strings of the form
  \<^verbatim>\<open>YYYY-MM-DD\<close> and compares them with the string order of Python, which is the
  lexicographic order on characters. A range is the two-element list
  \<^verbatim>\<open>[start, end]\<close> of the source, here a pair.
\<close>

type_synonym date = string
type_synonym range = "date \<times> date"

subsection \<open>Interval Merger: \<^verbatim>\<open>LikesCache._merge_ranges\<close>\<close>

text \<open>
  \<^verbatim>\<open>
  sorted_r = sorted(ranges, key=lambda r: r[0])
  merged = [sorted_r[0]]
  for s, e in sorted_r[1:]:
      if s <= merged[-1][1]:
          merged[-1][1] = max(merged[-1][1], e)
      else:
          merged.append([s, e])
  \<close>
  \<open>merge_loop\<close> is the \<^verbatim>\<open>for\<close> loop, with \<^verbatim>\<open>merged\<close> as its accumulator; the
  accumulator is never empty when the loop runs. Python's \<^verbatim>\<open>sorted\<close> is stable, as
  \<open>sort_key\<close> is.
\<close>

fun merge_loop :: "range list \<Rightarrow> range list \<Rightarrow> range list" where
  "merge_loop merged [] = merged"
| "merge_loop merged ((s, e) # rest) =
     (if s \<le> snd (last merged)
      then merge_loop (butlast merged @ [(fst (last merged), max (snd (last merged)) e)]) rest
      else merge_loop (merged @ [(s, e)]) rest)"

definition merge_ranges :: "range list \<Rightarrow> range list" where
  "merge_ranges ranges =
     (if ranges = [] then []
      else let sorted_r = sort_key fst ranges
           in merge_loop [hd sorted_r] (tl sorted_r))"

subsection \<open>Gap Detector: \<^verbatim>\<open>LikesCache._detect_gaps\<close>\<close>

text \<open>
  \<^verbatim>\<open>
  if not ranges:
      return [[start, end]]
  gaps = []
  cursor = start
  for rs, re_ in sorted(ranges, key=lambda r: r[0]):
      if rs > cursor:
          gap_end = min(rs, end)
          if cursor < gap_end:
              gaps.append([cursor, gap_end])
      cursor = max(cursor, re_)
  if cursor < end:
      gaps.append([cursor, end])
  return gaps
  \<close>
  \<open>gaps_loop\<close> is the loop together with the trailing test, threading \<^verbatim>\<open>gaps\<close> and
  \<^verbatim>\<open>cursor\<close>.
\<close>

fun gaps_loop :: "date \<Rightarrow> range list \<Rightarrow> date \<Rightarrow> range list \<Rightarrow> range list" where
  "gaps_loop end gaps cursor [] =
     (if cursor < end then gaps @ [(cursor, end)] else gaps)"
| "gaps_loop end gaps cursor ((rs, re) # rest) =
     (let gaps' =
        (if rs > cursor
         then (let gap_end = min rs end
               in if cursor < gap_end then gaps @ [(cursor, gap_end)] else gaps)
         else gaps)
      in gaps_loop end gaps' (max cursor re) rest)"

definition detect_gaps :: "range list \<Rightarrow> date \<Rightarrow> date \<Rightarrow> range list" where
  "detect_gaps ranges start end =
     (if ranges = [] then [(start, end)]
      else gaps_loop end [] start (sort_key fst ranges))"

text \<open>
  Two ranges overlap when they share more than a boundary day: each starts strictly
  before the other ends. Ranges that only meet in an endpoint touch; the gap detector
  emits gaps that touch the fetched ranges around them (with
  \<^verbatim>\<open>[["2024-01-01","2024-01-10"]]\<close> fetched and \<^verbatim>\<open>["2024-01-01","2024-01-20"]\<close>
  requested the gap is \<^verbatim>\<open>["2024-01-10","2024-01-20"]\<close>).
\<close>

definition overlaps :: "range \<Rightarrow> range \<Rightarrow> bool" where
  "overlaps a b = (fst a < snd b \<and> fst b < snd a)"

definition in_range :: "date \<Rightarrow> range \<Rightarrow> bool" where
  "in_range x r = (fst r \<le> x \<and> x \<le> snd r)"


definition merged :: "range list \<Rightarrow> bool" where
  "merged rs = (sorted (map fst rs) \<and> sorted_wrt (\<lambda>a b. snd a < fst b) rs)"

section \<open>Records, entity stores and the cache\<close>

subsection \<open>Python values\<close>

text \<open>
  \<^verbatim>\<open>str(n)\<close> for an integer: the decimal digits, with a minus sign for a negative one.
\<close>

function digits :: "int \<Rightarrow> string" where
  "digits n = (if n < 10 then [''0123456789'' ! nat n]
               else digits (n div 10) @ [''0123456789'' ! nat (n mod 10)])"
  by pat_completeness auto
termination
  by (relation "measure nat") auto

definition py_str_int :: "int \<Rightarrow> string" where
  "py_str_int i = (if i < 0 then CHR ''-'' # digits (- i) else digits i)"

text \<open>
  A slice \<^verbatim>\<open>xs[:n]\<close>: the first \<open>n\<close> elements, and for a negative \<open>n\<close> all but the
  last \<open>- n\<close>.
\<close>

definition py_slice_to :: "int \<Rightarrow> 'a list \<Rightarrow> 'a list" where
  "py_slice_to n xs = (if 0 \<le> n then take (nat n) xs else take (nat (int (length xs) + n)) xs)"

text \<open>
  A \<^verbatim>\<open>dict\<close> keeps its keys in insertion order, and \<^verbatim>\<open>values()\<close> and \<^verbatim>\<open>items()\<close>
  iterate in that order: an association list with one entry per key. \<^verbatim>\<open>d[k] = v\<close>
  overwrites the entry of \<open>k\<close> where it stands, or appends a new one.
\<close>

type_synonym 'v dict = "(string \<times> 'v) list"

fun dict_set :: "string \<Rightarrow> 'v \<Rightarrow> 'v dict \<Rightarrow> 'v dict" where
  "dict_set k v [] = [(k, v)]"
| "dict_set k v ((k', v') # d) = (if k' = k then (k, v) # d else (k', v') # dict_set k v d)"

definition dict_del :: "string \<Rightarrow> 'v dict \<Rightarrow> 'v dict" where
  "dict_del k d = filter (\<lambda>kv. fst kv \<noteq> k) d"

definition dict_values :: "'v dict \<Rightarrow> 'v list" where
  "dict_values d = map snd d"

datatype py_error = ValueError

subsection \<open>Records\<close>

text \<open>
  A record of the API is a JSON object; the cache reads one or two of its attributes and
  passes the rest through. Each kind is a HOL record of the attributes the cache reads
  (\<open>None\<close> when the object has no such key), the \<^verbatim>\<open>_cached_at\<close> stamp the cache adds, and
  the remaining attributes as an opaque value.
  \<^item> An activity's \<^verbatim>\<open>id\<close> is held as the string \<^verbatim>\<open>str()\<close> gives for it (the cache
    reads the attribute through \<^verbatim>\<open>str\<close> only); \<^verbatim>\<open>sign_date\<close> is a Unix timestamp, an
    integer.
  \<^item> A plan's \<^verbatim>\<open>start\<close> is a date string.
  \<^item> A feedback's \<^verbatim>\<open>created_time\<close> is a Unix timestamp, an integer.
  \<open>a_pyid\<close> and \<open>f_pyid\<close> are what Python's \<^verbatim>\<open>id(r)\<close> returns for the object, which
  the final deduplication falls back to when a record has no key.
\<close>

record activity =
  a_id :: "string option"
  a_sign_date :: "int option"
  a_cached_at :: "string option"
  a_pyid :: nat
  a_rest :: string

record plan =
  p_start :: "string option"
  p_cached_at :: "string option"
  p_rest :: string

record feedback =
  f_created_time :: "int option"
  f_cached_at :: "string option"
  f_pyid :: nat
  f_rest :: string

text \<open>The answer of an endpoint, and of a fetch: \<^verbatim>\<open>{"total": ..., "list" or "rows": [...]}\<close>.\<close>

record 'r page =
  pg_total :: int
  pg_items :: "'r list"

subsection \<open>Entity stores\<close>

text \<open>
  One store per entity kind,
  \<^verbatim>\<open>{"records": {key: record}, "_fetched_ranges": [[start, end], ...]}\<close>;
  the cache holds the three of them. A store that was never written is empty.
\<close>

record 'r store =
  records :: "'r dict"
  fetched_ranges :: "range list"

record cache =
  activities :: "activity store"
  plans :: "plan store"
  feedback :: "feedback store"

definition empty_store :: "'r store" where
  "empty_store = \<lparr>records = [], fetched_ranges = []\<rparr>"

definition empty_cache :: cache where
  "empty_cache = \<lparr>activities = empty_store, plans = empty_store, feedback = empty_store\<rparr>"

subsection \<open>Merge-insert: \<^verbatim>\<open>_merge_activities\<close>, \<^verbatim>\<open>_merge_plans\<close>, \<^verbatim>\<open>_merge_feedback\<close>\<close>

text \<open>
  \<^verbatim>\<open>
  for item in items:
      key = str(item.get("id", ""))          # plans: item.get("start", "")
      if not key:                            # feedback: str(item.get("created_time", ""))
          continue
      item["_cached_at"] = now
      store["records"][key] = item
  \<close>
  The three functions differ in the key and the record type only; \<open>merge_items\<close> is
  their common loop. The loop stamps the caller's objects in place, so the caller's list
  holds the stamped items afterwards: \<open>stamp_items\<close>.
\<close>

definition activity_key :: "activity \<Rightarrow> string" where
  "activity_key item = (case a_id item of None \<Rightarrow> [] | Some v \<Rightarrow> v)"

definition plan_key :: "plan \<Rightarrow> string" where
  "plan_key item = (case p_start item of None \<Rightarrow> [] | Some v \<Rightarrow> v)"

definition feedback_key :: "feedback \<Rightarrow> string" where
  "feedback_key item = (case f_created_time item of None \<Rightarrow> [] | Some t \<Rightarrow> py_str_int t)"

fun merge_items :: "('r \<Rightarrow> string) \<Rightarrow> ('r \<Rightarrow> 'r) \<Rightarrow> 'r list \<Rightarrow> 'r dict \<Rightarrow> 'r dict" where
  "merge_items key stamp [] recs = recs"
| "merge_items key stamp (item # items) recs =
     (if key item = [] then merge_items key stamp items recs
      else merge_items key stamp items (dict_set (key item) (stamp item) recs))"

definition stamp_items :: "('r \<Rightarrow> string) \<Rightarrow> ('r \<Rightarrow> 'r) \<Rightarrow> 'r list \<Rightarrow> 'r list" where
  "stamp_items key stamp items = map (\<lambda>item. if key item = [] then item else stamp item) items"

definition merge_activities :: "string \<Rightarrow> activity list \<Rightarrow> activity store \<Rightarrow> activity store" where
  "merge_activities now items st =
     st\<lparr>records := merge_items activity_key (\<lambda>item. item\<lparr>a_cached_at := Some now\<rparr>) items (records st)\<rparr>"

definition merge_plans :: "string \<Rightarrow> plan list \<Rightarrow> plan store \<Rightarrow> plan store" where
  "merge_plans now items st =
     st\<lparr>records := merge_items plan_key (\<lambda>item. item\<lparr>p_cached_at := Some now\<rparr>) items (records st)\<rparr>"

definition merge_feedback :: "string \<Rightarrow> feedback list \<Rightarrow> feedback store \<Rightarrow> feedback store" where
  "merge_feedback now items st =
     st\<lparr>records := merge_items feedback_key (\<lambda>item. item\<lparr>f_cached_at := Some now\<rparr>) items (records st)\<rparr>"

definition stamp_activities :: "string \<Rightarrow> activity list \<Rightarrow> activity list" where
  "stamp_activities now items = stamp_items activity_key (\<lambda>item. item\<lparr>a_cached_at := Some now\<rparr>) items"

definition stamp_plans :: "string \<Rightarrow> plan list \<Rightarrow> plan list" where
  "stamp_plans now items = stamp_items plan_key (\<lambda>item. item\<lparr>p_cached_at := Some now\<rparr>) items"

definition stamp_feedback :: "string \<Rightarrow> feedback list \<Rightarrow> feedback list" where
  "stamp_feedback now items = stamp_items feedback_key (\<lambda>item. item\<lparr>f_cached_at := Some now\<rparr>) items"

subsection \<open>Recording a fetched range: \<^verbatim>\<open>_record_fetched_range\<close>\<close>

text \<open>
  \<^verbatim>\<open>
  store["_fetched_ranges"].append([start, end])
  store["_fetched_ranges"] = self._merge_ranges(store["_fetched_ranges"])
  \<close>
\<close>

definition record_fetched_range :: "'r store \<Rightarrow> date \<Rightarrow> date \<Rightarrow> 'r store" where
  "record_fetched_range st start end =
     st\<lparr>fetched_ranges := merge_ranges (fetched_ranges st @ [(start, end)])\<rparr>"


subsection \<open>The calendar and the outside world\<close>

text \<open>
  The cache uses \<^verbatim>\<open>datetime\<close> for three things: \<^verbatim>\<open>_parse_date\<close> (\<^verbatim>\<open>strptime\<close> with
  \<^verbatim>\<open>%Y-%m-%d\<close>, UTC), \<^verbatim>\<open>strftime("%Y-%m-%d")\<close>, and adding or subtracting whole days.
  A \<^verbatim>\<open>datetime\<close> is modelled as its POSIX time in seconds, so that
  \<^verbatim>\<open>datetime.fromtimestamp(int(ts), tz=timezone.utc)\<close> is \<open>ts\<close> itself and
  \<^verbatim>\<open>timedelta(days=n)\<close> is \<open>days n\<close>. The two library functions are parameters:
  \<open>parse_date\<close> returns \<open>None\<close> where \<^verbatim>\<open>strptime\<close> raises \<^verbatim>\<open>ValueError\<close>. The limits
  of \<^verbatim>\<open>datetime\<close> (years 1 to 9999) are not modelled.
\<close>

record calendar =
  parse_date :: "date \<Rightarrow> int option"
  format_date :: "int \<Rightarrow> date"

definition days :: "int \<Rightarrow> int" where
  "days n = 86400 * n"

text \<open>
  The API collaborator and the clock, over a state \<open>'w\<close> of the outside world that every
  call may change. A call returns \<open>None\<close> when it raises
  \<^verbatim>\<open>requests.exceptions.RequestException\<close>, and the page otherwise (a response
  without the \<^verbatim>\<open>list\<close> or \<^verbatim>\<open>rows\<close> key is a page with no items). \<open>utc_now\<close> is
  \<^verbatim>\<open>datetime.now(timezone.utc).isoformat()\<close> and \<open>utc_today\<close> is \<^verbatim>\<open>_today()\<close>.
\<close>

record 'w env =
  api_get_activities :: "date \<Rightarrow> date \<Rightarrow> int option \<Rightarrow> 'w \<Rightarrow> activity page option \<times> 'w"
  api_get_plans :: "date option \<Rightarrow> int option \<Rightarrow> 'w \<Rightarrow> plan page option \<times> 'w"
  api_get_feedback :: "date \<Rightarrow> date \<Rightarrow> 'w \<Rightarrow> feedback page option \<times> 'w"
  utc_now :: "'w \<Rightarrow> string"
  utc_today :: "'w \<Rightarrow> date"

definition FROZEN_DAYS :: int where "FROZEN_DAYS = 7"
definition CHUNK_DAYS :: int where "CHUNK_DAYS = 30"
definition PLAN_CHUNK_DAYS :: int where "PLAN_CHUNK_DAYS = 42"
definition BACKFILL_EMPTY_STOP :: nat where "BACKFILL_EMPTY_STOP = 6"

subsection \<open>Query helpers: \<^verbatim>\<open>_get_cached_activities\<close>, \<^verbatim>\<open>_get_cached_plans\<close>, \<^verbatim>\<open>_get_cached_feedback\<close>\<close>

text \<open>
  \<^verbatim>\<open>
  start_dt = _parse_date(start)
  end_dt = _parse_date(end)
  for rec in store["records"].values():
      sd = rec.get("sign_date")
      if sd is None:
          continue
      rec_date = datetime.fromtimestamp(int(sd), tz=timezone.utc)
      if start_dt <= rec_date <= end_dt + timedelta(days=1):
          results.append(rec)
  \<close>
\<close>

definition get_cached_activities ::
  "calendar \<Rightarrow> activity store \<Rightarrow> date \<Rightarrow> date \<Rightarrow> py_error + activity list" where
  "get_cached_activities cal st start end =
     (case parse_date cal start of
        None \<Rightarrow> Inl ValueError
      | Some start_dt \<Rightarrow>
          (case parse_date cal end of
             None \<Rightarrow> Inl ValueError
           | Some end_dt \<Rightarrow>
               Inr (filter (\<lambda>rec. case a_sign_date rec of
                                     None \<Rightarrow> False
                                   | Some sd \<Rightarrow> start_dt \<le> sd \<and> sd \<le> end_dt + days 1)
                      (dict_values (records st)))))"

text \<open>
  \<^verbatim>\<open>
  for rec in store["records"].values():
      s = rec.get("start", "")
      if not s:
          continue
      if start <= s <= end:
          results.append(rec)
  \<close>
\<close>

definition get_cached_plans :: "plan store \<Rightarrow> date \<Rightarrow> date \<Rightarrow> plan list" where
  "get_cached_plans st start end =
     filter (\<lambda>rec. plan_key rec \<noteq> [] \<and> start \<le> plan_key rec \<and> plan_key rec \<le> end)
       (dict_values (records st))"

definition get_cached_feedback ::
  "calendar \<Rightarrow> feedback store \<Rightarrow> date \<Rightarrow> date \<Rightarrow> py_error + feedback list" where
  "get_cached_feedback cal st start end =
     (case parse_date cal start of
        None \<Rightarrow> Inl ValueError
      | Some start_dt \<Rightarrow>
          (case parse_date cal end of
             None \<Rightarrow> Inl ValueError
           | Some end_dt \<Rightarrow>
               Inr (filter (\<lambda>rec. case f_created_time rec of
                                     None \<Rightarrow> False
                                   | Some ct \<Rightarrow> start_dt \<le> ct \<and> ct \<le> end_dt + days 1)
                      (dict_values (records st)))))"

subsection \<open>Fetch Orchestrator: \<^verbatim>\<open>fetch_activities\<close>\<close>

text \<open>
  The keys the orchestrator compares: \<^verbatim>\<open>str(r.get("id"))\<close> when it adds fetched items
  to the records collected so far (a record without the attribute gives \<^verbatim>\<open>"None"\<close>),
  \<^verbatim>\<open>str(r.get("id", id(r)))\<close> in the final deduplication, and
  \<^verbatim>\<open>int(r.get("sign_date", 0))\<close> for sorting.
\<close>

definition a_id_str :: "activity \<Rightarrow> string" where
  "a_id_str r = (case a_id r of None \<Rightarrow> ''None'' | Some v \<Rightarrow> v)"

definition a_seen_key :: "activity \<Rightarrow> string" where
  "a_seen_key r = (case a_id r of None \<Rightarrow> py_str_int (int (a_pyid r)) | Some v \<Rightarrow> v)"

definition a_sort_key :: "activity \<Rightarrow> int" where
  "a_sort_key r = (case a_sign_date r of None \<Rightarrow> 0 | Some sd \<Rightarrow> sd)"

text \<open>
  \<^verbatim>\<open>
  existing_ids = {str(r.get("id")) for r in all_records}
  for item in items:
      if str(item.get("id")) not in existing_ids:
          all_records.append(item)
  \<close>
\<close>

definition add_new :: "('r \<Rightarrow> string) \<Rightarrow> 'r list \<Rightarrow> 'r list \<Rightarrow> 'r list" where
  "add_new id_str all_records items =
     (let existing_ids = set (map id_str all_records)
      in all_records @ filter (\<lambda>item. id_str item \<notin> existing_ids) items)"

text \<open>
  \<^verbatim>\<open>
  seen = {}
  for r in all_records:
      rid = str(r.get("id", id(r)))
      if rid not in seen:
          seen[rid] = r
  \<close>
\<close>

fun seen_loop :: "('r \<Rightarrow> string) \<Rightarrow> 'r list \<Rightarrow> 'r dict \<Rightarrow> 'r dict" where
  "seen_loop key [] seen = seen"
| "seen_loop key (r # rs) seen =
     (if key r \<notin> fst ` set seen then seen_loop key rs (dict_set (key r) r seen)
      else seen_loop key rs seen)"

text \<open>
  \<^verbatim>\<open>
  deduped = sorted(seen.values(), key=lambda r: int(r.get("sign_date", 0)), reverse=True)
  limited = deduped[:limit] if limit else deduped
  return {"total": len(deduped), "list": limited}
  \<close>
  \<^verbatim>\<open>sorted\<close> with \<^verbatim>\<open>reverse=True\<close> is stable: records with equal keys keep their
  order, as in an ascending stable sort by the negated key.
\<close>

definition finish_activities :: "activity list \<Rightarrow> int option \<Rightarrow> activity page" where
  "finish_activities all_records limit =
     (let seen = seen_loop a_seen_key all_records [];
          deduped = sort_key (\<lambda>r. - a_sort_key r) (dict_values seen);
          limited = (case limit of
                       None \<Rightarrow> deduped
                     | Some n \<Rightarrow> if n = 0 then deduped else py_slice_to n deduped)
      in \<lparr>pg_total = int (length deduped), pg_items = limited\<rparr>)"

text \<open>
  The loop over the gaps of the frozen portion, on the cache, the world and the records
  collected so far.
  \<^verbatim>\<open>
  for gap_start, gap_end in gaps:
      try:
          data = api.get_activities(start_date=gap_start, end_date=gap_end, limit=100)
          items = data.get("list", [])
          self._merge_activities(items)
          self._record_fetched_range("activities", gap_start, gap_end)
          existing_ids = ...
      except req_lib.exceptions.RequestException:
          print(...)
  \<close>
\<close>

definition store_activities ::
  "'w env \<Rightarrow> activity page \<Rightarrow> date \<Rightarrow> date \<Rightarrow> cache \<times> 'w \<times> activity list
     \<Rightarrow> cache \<times> 'w \<times> activity list" where
  "store_activities env data start end s =
     (case s of (c, w, all_records) \<Rightarrow>
        (let now = utc_now env w;
             c' = c\<lparr>activities :=
                     record_fetched_range (merge_activities now (pg_items data) (activities c)) start end\<rparr>
         in (c', w, add_new a_id_str all_records (stamp_activities now (pg_items data)))))"

fun fill_activity_gaps ::
  "'w env \<Rightarrow> range list \<Rightarrow> cache \<times> 'w \<times> activity list \<Rightarrow> cache \<times> 'w \<times> activity list" where
  "fill_activity_gaps env [] s = s"
| "fill_activity_gaps env ((gap_start, gap_end) # gaps) (c, w, all_records) =
     (case api_get_activities env gap_start gap_end (Some 100) w of
        (Some data, w') \<Rightarrow>
          fill_activity_gaps env gaps (store_activities env data gap_start gap_end (c, w', all_records))
      | (None, w') \<Rightarrow> fill_activity_gaps env gaps (c, w', all_records))"

text \<open>
  The frozen and the fresh portion: \<open>collect_activities\<close> returns \<^verbatim>\<open>all_records\<close>, or
  the \<^verbatim>\<open>ValueError\<close> of a date that does not parse, with the cache and the world as they
  are at that point.
\<close>

definition frozen_activities ::
  "'w env \<Rightarrow> calendar \<Rightarrow> date \<Rightarrow> date \<Rightarrow> date \<Rightarrow> cache \<Rightarrow> 'w
     \<Rightarrow> (py_error + activity list) \<times> cache \<times> 'w" where
  "frozen_activities env cal frozen_boundary start_date end_date c w =
     (if start_date < frozen_boundary
      then (let frozen_end = min end_date frozen_boundary
            in case get_cached_activities cal (activities c) start_date frozen_end of
                 Inl e \<Rightarrow> (Inl e, c, w)
               | Inr cached \<Rightarrow>
                   (let gaps = detect_gaps (fetched_ranges (activities c)) start_date frozen_end
                    in case fill_activity_gaps env gaps (c, w, cached) of
                         (c', w', all_records) \<Rightarrow> (Inr all_records, c', w')))
      else (Inr [], c, w))"

definition fresh_activities ::
  "'w env \<Rightarrow> calendar \<Rightarrow> date \<Rightarrow> date \<Rightarrow> date \<Rightarrow> activity list \<Rightarrow> cache \<Rightarrow> 'w
     \<Rightarrow> (py_error + activity list) \<times> cache \<times> 'w" where
  "fresh_activities env cal frozen_boundary start_date end_date all_records c w =
     (let fresh_start = max start_date frozen_boundary
      in if fresh_start \<le> end_date
         then (case api_get_activities env fresh_start end_date (Some 100) w of
                 (Some data, w') \<Rightarrow>
                   (case store_activities env data fresh_start end_date (c, w', all_records) of
                      (c', w'', all_records') \<Rightarrow> (Inr all_records', c', w''))
               | (None, w') \<Rightarrow>
                   (case get_cached_activities cal (activities c) fresh_start end_date of
                      Inl e \<Rightarrow> (Inl e, c, w')
                    | Inr cached \<Rightarrow> (Inr (add_new a_id_str all_records cached), c, w')))
         else (Inr all_records, c, w))"

definition collect_activities ::
  "'w env \<Rightarrow> calendar \<Rightarrow> date \<Rightarrow> date \<Rightarrow> date \<Rightarrow> cache \<Rightarrow> 'w
     \<Rightarrow> (py_error + activity list) \<times> cache \<times> 'w" where
  "collect_activities env cal today start_date end_date c w =
     (case parse_date cal today of
        None \<Rightarrow> (Inl ValueError, c, w)
      | Some today_dt \<Rightarrow>
          (let frozen_boundary = format_date cal (today_dt - days FROZEN_DAYS)
           in case frozen_activities env cal frozen_boundary start_date end_date c w of
                (Inl e, c', w') \<Rightarrow> (Inl e, c', w')
              | (Inr all_records, c', w') \<Rightarrow>
                  fresh_activities env cal frozen_boundary start_date end_date all_records c' w'))"

text \<open>
  \<^verbatim>\<open>fetch_activities(api, start_date=None, end_date=None, limit=10, no_cache=False)\<close>.
  \<open>default_start\<close> is the start date when none is given,
  \<^verbatim>\<open>(_parse_date(end_date) - timedelta(days=30)).strftime("%Y-%m-%d")\<close>. With \<^verbatim>\<open>no_cache\<close> the answer of the API is returned as it came (its items stamped by
  the merge), or an empty page when the API is unavailable.
\<close>

definition default_start :: "calendar \<Rightarrow> date option \<Rightarrow> date \<Rightarrow> date option" where
  "default_start cal start_date end_date =
     (case start_date of
        Some s \<Rightarrow> Some s
      | None \<Rightarrow> map_option (\<lambda>dt. format_date cal (dt - days 30)) (parse_date cal end_date))"

definition fetch_activities ::
  "'w env \<Rightarrow> calendar \<Rightarrow> date option \<Rightarrow> date option \<Rightarrow> int option \<Rightarrow> bool \<Rightarrow> cache \<Rightarrow> 'w
     \<Rightarrow> (py_error + activity page) \<times> cache \<times> 'w" where
  "fetch_activities env cal start_date end_date limit no_cache c w =
     (let today = utc_today env w;
          end_date = (case end_date of None \<Rightarrow> today | Some e \<Rightarrow> e)
      in case default_start cal start_date end_date of
           None \<Rightarrow> (Inl ValueError, c, w)
         | Some start_date \<Rightarrow>
             if no_cache
             then (case api_get_activities env start_date end_date limit w of
                     (Some data, w') \<Rightarrow>
                       (let now = utc_now env w'
                        in (Inr (data\<lparr>pg_items := stamp_activities now (pg_items data)\<rparr>),
                            c\<lparr>activities := merge_activities now (pg_items data) (activities c)\<rparr>,
                            w'))
                   | (None, w') \<Rightarrow> (Inr \<lparr>pg_total = 0, pg_items = []\<rparr>, c, w'))
             else (case collect_activities env cal today start_date end_date c w of
                     (Inl e, c', w') \<Rightarrow> (Inl e, c', w')
                   | (Inr all_records, c', w') \<Rightarrow>
                       (Inr (finish_activities all_records limit), c', w')))"

subsection \<open>Fetch Orchestrator: \<^verbatim>\<open>fetch_plans\<close>\<close>

text \<open>
  \<^verbatim>\<open>
  try:
      data = api.get_plans(start=start, game_id=game_id)
      self._merge_plans(data.get("rows", []))
      return data
  except req_lib.exceptions.RequestException:
      if no_cache:
          return {"total": 0, "rows": []}
      plan_start = start or _today()
      plan_end = (_parse_date(plan_start) + timedelta(days=PLAN_CHUNK_DAYS)).strftime("%Y-%m-%d")
      cached = self._get_cached_plans(plan_start, plan_end)
      cached.sort(key=lambda p: p.get("start", ""))
      return {"total": len(cached), "rows": cached}
  \<close>
\<close>

definition fetch_plans ::
  "'w env \<Rightarrow> calendar \<Rightarrow> date option \<Rightarrow> int option \<Rightarrow> bool \<Rightarrow> cache \<Rightarrow> 'w
     \<Rightarrow> (py_error + plan page) \<times> cache \<times> 'w" where
  "fetch_plans env cal start game_id no_cache c w =
     (case api_get_plans env start game_id w of
        (Some data, w') \<Rightarrow>
          (let now = utc_now env w'
           in (Inr (data\<lparr>pg_items := stamp_plans now (pg_items data)\<rparr>),
               c\<lparr>plans := merge_plans now (pg_items data) (plans c)\<rparr>,
               w'))
      | (None, w') \<Rightarrow>
          if no_cache then (Inr \<lparr>pg_total = 0, pg_items = []\<rparr>, c, w')
          else (let plan_start = (case start of
                                    None \<Rightarrow> utc_today env w'
                                  | Some s \<Rightarrow> if s = [] then utc_today env w' else s)
                in case parse_date cal plan_start of
                     None \<Rightarrow> (Inl ValueError, c, w')
                   | Some dt \<Rightarrow>
                       (let plan_end = format_date cal (dt + days PLAN_CHUNK_DAYS);
                            cached = sort_key plan_key (get_cached_plans (plans c) plan_start plan_end)
                        in (Inr \<lparr>pg_total = int (length cached), pg_items = cached\<rparr>, c, w'))))"

subsection \<open>Fetch Orchestrator: \<^verbatim>\<open>fetch_feedback\<close>\<close>

text \<open>
  The same frozen and fresh portions as for activities, on the feedback store, with
  \<^verbatim>\<open>str(r.get("created_time"))\<close>, \<^verbatim>\<open>str(r.get("created_time", id(r)))\<close> and
  \<^verbatim>\<open>int(r.get("created_time", 0))\<close> as the keys, and no limit.
\<close>

definition f_id_str :: "feedback \<Rightarrow> string" where
  "f_id_str r = (case f_created_time r of None \<Rightarrow> ''None'' | Some t \<Rightarrow> py_str_int t)"

definition f_seen_key :: "feedback \<Rightarrow> string" where
  "f_seen_key r = (case f_created_time r of None \<Rightarrow> py_str_int (int (f_pyid r)) | Some t \<Rightarrow> py_str_int t)"

definition f_sort_key :: "feedback \<Rightarrow> int" where
  "f_sort_key r = (case f_created_time r of None \<Rightarrow> 0 | Some t \<Rightarrow> t)"

definition finish_feedback :: "feedback list \<Rightarrow> feedback page" where
  "finish_feedback all_records =
     (let seen = seen_loop f_seen_key all_records [];
          deduped = sort_key (\<lambda>r. - f_sort_key r) (dict_values seen)
      in \<lparr>pg_total = int (length deduped), pg_items = deduped\<rparr>)"

definition store_feedback ::
  "'w env \<Rightarrow> feedback page \<Rightarrow> date \<Rightarrow> date \<Rightarrow> cache \<times> 'w \<times> feedback list
     \<Rightarrow> cache \<times> 'w \<times> feedback list" where
  "store_feedback env data start end s =
     (case s of (c, w, all_records) \<Rightarrow>
        (let now = utc_now env w;
             c' = c\<lparr>feedback :=
                     record_fetched_range (merge_feedback now (pg_items data) (feedback c)) start end\<rparr>
         in (c', w, add_new f_id_str all_records (stamp_feedback now (pg_items data)))))"

fun fill_feedback_gaps ::
  "'w env \<Rightarrow> range list \<Rightarrow> cache \<times> 'w \<times> feedback list \<Rightarrow> cache \<times> 'w \<times> feedback list" where
  "fill_feedback_gaps env [] s = s"
| "fill_feedback_gaps env ((gap_start, gap_end) # gaps) (c, w, all_records) =
     (case api_get_feedback env gap_start gap_end w of
        (Some data, w') \<Rightarrow>
          fill_feedback_gaps env gaps (store_feedback env data gap_start gap_end (c, w', all_records))
      | (None, w') \<Rightarrow> fill_feedback_gaps env gaps (c, w', all_records))"

definition frozen_feedback ::
  "'w env \<Rightarrow> calendar \<Rightarrow> date \<Rightarrow> date \<Rightarrow> date \<Rightarrow> cache \<Rightarrow> 'w
     \<Rightarrow> (py_error + feedback list) \<times> cache \<times> 'w" where
  "frozen_feedback env cal frozen_boundary start end c w =
     (if start < frozen_boundary
      then (let frozen_end = min end frozen_boundary
            in case get_cached_feedback cal (feedback c) start frozen_end of
                 Inl e \<Rightarrow> (Inl e, c, w)
               | Inr cached \<Rightarrow>
                   (let gaps = detect_gaps (fetched_ranges (feedback c)) start frozen_end
                    in case fill_feedback_gaps env gaps (c, w, cached) of
                         (c', w', all_records) \<Rightarrow> (Inr all_records, c', w')))
      else (Inr [], c, w))"

definition fresh_feedback ::
  "'w env \<Rightarrow> calendar \<Rightarrow> date \<Rightarrow> date \<Rightarrow> date \<Rightarrow> feedback list \<Rightarrow> cache \<Rightarrow> 'w
     \<Rightarrow> (py_error + feedback list) \<times> cache \<times> 'w" where
  "fresh_feedback env cal frozen_boundary start end all_records c w =
     (let fresh_start = max start frozen_boundary
      in if fresh_start \<le> end
         then (case api_get_feedback env fresh_start end w of
                 (Some data, w') \<Rightarrow>
                   (case store_feedback env data fresh_start end (c, w', all_records) of
                      (c', w'', all_records') \<Rightarrow> (Inr all_records', c', w''))
               | (None, w') \<Rightarrow>
                   (case get_cached_feedback cal (feedback c) fresh_start end of
                      Inl e \<Rightarrow> (Inl e, c, w')
                    | Inr cached \<Rightarrow> (Inr (add_new f_id_str all_records cached), c, w')))
         else (Inr all_records, c, w))"

definition collect_feedback ::
  "'w env \<Rightarrow> calendar \<Rightarrow> date \<Rightarrow> date \<Rightarrow> cache \<Rightarrow> 'w
     \<Rightarrow> (py_error + feedback list) \<times> cache \<times> 'w" where
  "collect_feedback env cal start end c w =
     (case parse_date cal (utc_today env w) of
        None \<Rightarrow> (Inl ValueError, c, w)
      | Some today_dt \<Rightarrow>
          (let frozen_boundary = format_date cal (today_dt - days FROZEN_DAYS)
           in case frozen_feedback env cal frozen_boundary start end c w of
                (Inl e, c', w') \<Rightarrow> (Inl e, c', w')
              | (Inr all_records, c', w') \<Rightarrow>
                  fresh_feedback env cal frozen_boundary start end all_records c' w'))"

text \<open>
  \<^verbatim>\<open>fetch_feedback(api, start=None, end=None, no_cache=False)\<close>: without a start or an
  end (\<^verbatim>\<open>None\<close> or the empty string) the answer is the empty page.
\<close>

definition fetch_feedback ::
  "'w env \<Rightarrow> calendar \<Rightarrow> date option \<Rightarrow> date option \<Rightarrow> bool \<Rightarrow> cache \<Rightarrow> 'w
     \<Rightarrow> (py_error + feedback page) \<times> cache \<times> 'w" where
  "fetch_feedback env cal start end no_cache c w =
     (case (start, end) of
        (Some s, Some e) \<Rightarrow>
          if s = [] \<or> e = [] then (Inr \<lparr>pg_total = 0, pg_items = []\<rparr>, c, w)
          else if no_cache
          then (case api_get_feedback env s e w of
                  (Some data, w') \<Rightarrow>
                    (let now = utc_now env w'
                     in (Inr (data\<lparr>pg_items := stamp_feedback now (pg_items data)\<rparr>),
                         c\<lparr>feedback := merge_feedback now (pg_items data) (feedback c)\<rparr>,
                         w'))
                | (None, w') \<Rightarrow> (Inr \<lparr>pg_total = 0, pg_items = []\<rparr>, c, w'))
          else (case collect_feedback env cal s e c w of
                  (Inl err, c', w') \<Rightarrow> (Inl err, c', w')
                | (Inr all_records, c', w') \<Rightarrow> (Inr (finish_feedback all_records), c', w'))
      | _ \<Rightarrow> (Inr \<lparr>pg_total = 0, pg_items = []\<rparr>, c, w))"

subsection \<open>Cache management: \<^verbatim>\<open>clear\<close>\<close>

text \<open>
  \<^verbatim>\<open>
  before_dt = _parse_date(before)
  for name in ("activities", "plans", "feedback"):
      store = self._load(name)
      to_delete = []
      for key, rec in store["records"].items():
          if name == "activities":
              sd = rec.get("sign_date")
              if sd and datetime.fromtimestamp(int(sd), tz=timezone.utc) < before_dt:
                  to_delete.append(key)
          elif name == "plans":
              s = rec.get("start")
              if s and s < before:
                  to_delete.append(key)
          elif name == "feedback":
              ct = rec.get("created_time")
              if ct and datetime.fromtimestamp(int(ct), tz=timezone.utc) < before_dt:
                  to_delete.append(key)
      for key in to_delete:
          del store["records"][key]
  \<close>
  The guard \<^verbatim>\<open>sd and ...\<close> is false for a missing attribute and for a falsy one: the
  timestamp \<open>0\<close>, the empty start.
\<close>

definition activity_expired :: "int \<Rightarrow> activity \<Rightarrow> bool" where
  "activity_expired before_dt rec =
     (case a_sign_date rec of None \<Rightarrow> False | Some sd \<Rightarrow> sd \<noteq> 0 \<and> sd < before_dt)"

definition plan_expired :: "date \<Rightarrow> plan \<Rightarrow> bool" where
  "plan_expired before rec =
     (case p_start rec of None \<Rightarrow> False | Some s \<Rightarrow> s \<noteq> [] \<and> s < before)"

definition feedback_expired :: "int \<Rightarrow> feedback \<Rightarrow> bool" where
  "feedback_expired before_dt rec =
     (case f_created_time rec of None \<Rightarrow> False | Some ct \<Rightarrow> ct \<noteq> 0 \<and> ct < before_dt)"

definition clear_store :: "('r \<Rightarrow> bool) \<Rightarrow> 'r store \<Rightarrow> 'r store" where
  "clear_store expired st =
     (let to_delete = map fst (filter (\<lambda>kv. expired (snd kv)) (records st))
      in st\<lparr>records := fold dict_del to_delete (records st)\<rparr>)"

text \<open>
  Without a cutoff the three documents are removed and the stores forgotten: the cache is
  empty. A cutoff that does not parse raises before anything is touched.
\<close>

definition clear :: "calendar \<Rightarrow> date option \<Rightarrow> cache \<Rightarrow> py_error + cache" where
  "clear cal before c =
     (case before of
        None \<Rightarrow> Inr empty_cache
      | Some b \<Rightarrow>
          (case parse_date cal b of
             None \<Rightarrow> Inl ValueError
           | Some before_dt \<Rightarrow>
               Inr (c\<lparr>activities := clear_store (activity_expired before_dt) (activities c),
                      plans := clear_store (plan_expired b) (plans c),
                      feedback := clear_store (feedback_expired before_dt) (feedback c)\<rparr>)))"

text \<open>
  The mutations of a cache: recording a fetched range in one of the stores, the three
  merge-inserts, and clear. A clear that raises leaves the cache as it is.
\<close>

datatype entity = Activities | Plans | Feedback

datatype mutation =
    Record_range entity date date
  | Insert_activities string "activity list"
  | Insert_plans string "plan list"
  | Insert_feedback string "feedback list"
  | Clear "date option"

fun apply_mutation :: "calendar \<Rightarrow> cache \<Rightarrow> mutation \<Rightarrow> cache" where
  "apply_mutation cal c (Record_range Activities s e) =
     c\<lparr>activities := record_fetched_range (activities c) s e\<rparr>"
| "apply_mutation cal c (Record_range Plans s e) =
     c\<lparr>plans := record_fetched_range (plans c) s e\<rparr>"
| "apply_mutation cal c (Record_range Feedback s e) =
     c\<lparr>feedback := record_fetched_range (feedback c) s e\<rparr>"
| "apply_mutation cal c (Insert_activities now items) =
     c\<lparr>activities := merge_activities now items (activities c)\<rparr>"
| "apply_mutation cal c (Insert_plans now items) =
     c\<lparr>plans := merge_plans now items (plans c)\<rparr>"
| "apply_mutation cal c (Insert_feedback now items) =
     c\<lparr>feedback := merge_feedback now items (feedback c)\<rparr>"
| "apply_mutation cal c (Clear before) =
     (case clear cal before c of Inl e \<Rightarrow> c | Inr c' \<Rightarrow> c')"

definition cache_merged :: "cache \<Rightarrow> bool" where
  "cache_merged c =
     (merged (fetched_ranges (activities c)) \<and> merged (fetched_ranges (plans c))
      \<and> merged (fetched_ranges (feedback c)))"

subsection \<open>Backfill Scheduler: \<^verbatim>\<open>backfill\<close>\<close>

text \<open>
  What \<^verbatim>\<open>backfill\<close> prints to \<^verbatim>\<open>stderr\<close> is its log: \<open>Chunk (i + 1) start end\<close> for
  every chunk it attempts, then \<open>Cached\<close>, \<open>Fetched count\<close>, \<open>Api_error\<close> or
  \<open>Unknown_endpoint\<close> for the chunk, and \<open>Stopping\<close> when the run of empty chunks ends
  the loop. The state of the loop is the cache, the world, \<^verbatim>\<open>empty_streak\<close> and the log.
\<close>

datatype event = Chunk nat date date | Cached | Fetched nat | Api_error | Unknown_endpoint | Stopping

record 'w bf_state =
  bf_cache :: cache
  bf_world :: 'w
  empty_streak :: nat
  bf_log :: "event list"

datatype flow = Continue | Break

text \<open>\<^verbatim>\<open>if months\<close>: a horizon is given when \<^verbatim>\<open>months\<close> is neither \<^verbatim>\<open>None\<close> nor \<open>0\<close>.\<close>

definition horizon_given :: "int option \<Rightarrow> bool" where
  "horizon_given months = (case months of None \<Rightarrow> False | Some m \<Rightarrow> m \<noteq> 0)"

text \<open>
  \<^verbatim>\<open>
  if months:
      earliest = (today_dt - timedelta(days=months * 30)).strftime("%Y-%m-%d")
      if chunk_end < earliest:
          break
  \<close>
\<close>

definition past_horizon :: "calendar \<Rightarrow> int option \<Rightarrow> int \<Rightarrow> date \<Rightarrow> bool" where
  "past_horizon cal months today_dt chunk_end =
     (case months of
        None \<Rightarrow> False
      | Some m \<Rightarrow> m \<noteq> 0 \<and> chunk_end < format_date cal (today_dt - days (m * 30)))"

text \<open>
  \<^verbatim>\<open>
  count = len(items)
  if count == 0:
      empty_streak += 1
  else:
      empty_streak = 0
  if not months and empty_streak >= BACKFILL_EMPTY_STOP:
      break
  \<close>
\<close>

definition count_chunk :: "int option \<Rightarrow> nat \<Rightarrow> 'w bf_state \<Rightarrow> flow \<times> 'w bf_state" where
  "count_chunk months count st =
     (let streak = (if count = 0 then empty_streak st + 1 else 0);
          st' = st\<lparr>empty_streak := streak, bf_log := bf_log st @ [Fetched count]\<rparr>
      in if \<not> horizon_given months \<and> streak \<ge> BACKFILL_EMPTY_STOP
         then (Break, st'\<lparr>bf_log := bf_log st' @ [Stopping]\<rparr>)
         else (Continue, st'))"

text \<open>
  The body of the loop for chunk \<open>i\<close>. \<^verbatim>\<open>continue\<close> and the normal end of the body are
  \<open>Continue\<close>; \<^verbatim>\<open>break\<close> and \<^verbatim>\<open>return\<close> are \<open>Break\<close>.
\<close>

definition backfill_chunk ::
  "'w env \<Rightarrow> calendar \<Rightarrow> string \<Rightarrow> int option \<Rightarrow> int \<Rightarrow> int \<Rightarrow> nat \<Rightarrow> 'w bf_state
     \<Rightarrow> flow \<times> 'w bf_state" where
  "backfill_chunk env cal endpoint months today_dt chunk_days i st =
     (let chunk_end_dt = today_dt - days (int i * chunk_days);
          chunk_start_dt = chunk_end_dt - days chunk_days;
          chunk_start = format_date cal chunk_start_dt;
          chunk_end = format_date cal chunk_end_dt
      in if past_horizon cal months today_dt chunk_end then (Break, st)
         else
          (let st1 = st\<lparr>bf_log := bf_log st @ [Chunk (i + 1) chunk_start chunk_end]\<rparr>;
               c = bf_cache st;
               w = bf_world st
           in if endpoint = ''activities''
              then (if detect_gaps (fetched_ranges (activities c)) chunk_start chunk_end = []
                    then (Continue, st1\<lparr>bf_log := bf_log st1 @ [Cached]\<rparr>)
                    else (case api_get_activities env chunk_start chunk_end (Some 100) w of
                            (Some data, w') \<Rightarrow>
                              count_chunk months (length (pg_items data))
                                (st1\<lparr>bf_cache := c\<lparr>activities :=
                                        record_fetched_range
                                          (merge_activities (utc_now env w') (pg_items data) (activities c))
                                          chunk_start chunk_end\<rparr>,
                                      bf_world := w'\<rparr>)
                          | (None, w') \<Rightarrow>
                              (Break, st1\<lparr>bf_world := w', bf_log := bf_log st1 @ [Api_error]\<rparr>)))
              else if endpoint = ''feedback''
              then (if detect_gaps (fetched_ranges (feedback c)) chunk_start chunk_end = []
                    then (Continue, st1\<lparr>bf_log := bf_log st1 @ [Cached]\<rparr>)
                    else (case api_get_feedback env chunk_start chunk_end w of
                            (Some data, w') \<Rightarrow>
                              count_chunk months (length (pg_items data))
                                (st1\<lparr>bf_cache := c\<lparr>feedback :=
                                        record_fetched_range
                                          (merge_feedback (utc_now env w') (pg_items data) (feedback c))
                                          chunk_start chunk_end\<rparr>,
                                      bf_world := w'\<rparr>)
                          | (None, w') \<Rightarrow>
                              (Break, st1\<lparr>bf_world := w', bf_log := bf_log st1 @ [Api_error]\<rparr>)))
              else if endpoint = ''plans''
              then (case api_get_plans env (Some chunk_start) None w of
                      (Some data, w') \<Rightarrow>
                        count_chunk months (length (pg_items data))
                          (st1\<lparr>bf_cache := c\<lparr>plans :=
                                  merge_plans (utc_now env w') (pg_items data) (plans c)\<rparr>,
                                bf_world := w'\<rparr>)
                    | (None, w') \<Rightarrow>
                        (Break, st1\<lparr>bf_world := w', bf_log := bf_log st1 @ [Api_error]\<rparr>))
              else (Break, st1\<lparr>bf_log := bf_log st1 @ [Unknown_endpoint]\<rparr>)))"

text \<open>\<^verbatim>\<open>for i in range(max_chunks)\<close>, over the list of the indices.\<close>

fun backfill_loop ::
  "(nat \<Rightarrow> 'w bf_state \<Rightarrow> flow \<times> 'w bf_state) \<Rightarrow> nat list \<Rightarrow> 'w bf_state \<Rightarrow> 'w bf_state" where
  "backfill_loop body [] st = st"
| "backfill_loop body (i # indices) st =
     (case body i st of
        (Continue, st') \<Rightarrow> backfill_loop body indices st'
      | (Break, st') \<Rightarrow> st')"

text \<open>
  \<^verbatim>\<open>
  chunk_days = PLAN_CHUNK_DAYS if endpoint == "plans" else CHUNK_DAYS
  max_chunks = (months * 30 // chunk_days + 1) if months else 999
  \<close>
\<close>

definition chunk_days_of :: "string \<Rightarrow> int" where
  "chunk_days_of endpoint = (if endpoint = ''plans'' then PLAN_CHUNK_DAYS else CHUNK_DAYS)"

definition max_chunks :: "int option \<Rightarrow> int \<Rightarrow> int" where
  "max_chunks months chunk_days =
     (case months of
        None \<Rightarrow> 999
      | Some m \<Rightarrow> if m = 0 then 999 else m * 30 div chunk_days + 1)"

definition backfill ::
  "'w env \<Rightarrow> calendar \<Rightarrow> string \<Rightarrow> int option \<Rightarrow> cache \<Rightarrow> 'w \<Rightarrow> py_error + 'w bf_state" where
  "backfill env cal endpoint months c w =
     (case parse_date cal (utc_today env w) of
        None \<Rightarrow> Inl ValueError
      | Some today_dt \<Rightarrow>
          (let chunk_days = chunk_days_of endpoint
           in Inr (backfill_loop (backfill_chunk env cal endpoint months today_dt chunk_days)
                     [0..<nat (max_chunks months chunk_days)]
                     \<lparr>bf_cache = c, bf_world = w, empty_streak = 0, bf_log = []\<rparr>)))"

text \<open>The chunks a run attempted are the \<open>Chunk\<close> lines of its log.\<close>

fun is_chunk :: "event \<Rightarrow> bool" where
  "is_chunk (Chunk i s e) = True"
| "is_chunk ev = False"

definition chunks_attempted :: "event list \<Rightarrow> nat" where
  "chunks_attempted evs = length (filter is_chunk evs)"

section \<open>A calendar and an outside world for the examples\<close>

text \<open>
  The proleptic Gregorian calendar in UTC, for dates written in full as \<^verbatim>\<open>YYYY-MM-DD\<close>:
  \<open>iso_parse\<close> gives the POSIX time of the day's midnight and \<open>iso_format\<close> the day of a
  POSIX time. The examples below instantiate the calendar parameter with it.
\<close>

definition days_from_civil :: "int \<Rightarrow> int \<Rightarrow> int \<Rightarrow> int" where
  "days_from_civil y m d =
     (let y' = (if m \<le> 2 then y - 1 else y);
          era = y' div 400;
          yoe = y' - era * 400;
          doy = (153 * (if m > 2 then m - 3 else m + 9) + 2) div 5 + d - 1;
          doe = yoe * 365 + yoe div 4 - yoe div 100 + doy
      in era * 146097 + doe - 719468)"

definition civil_from_days :: "int \<Rightarrow> int \<times> int \<times> int" where
  "civil_from_days z =
     (let z' = z + 719468;
          era = z' div 146097;
          doe = z' - era * 146097;
          yoe = (doe - doe div 1460 + doe div 36524 - doe div 146096) div 365;
          doy = doe - (365 * yoe + yoe div 4 - yoe div 100);
          mp = (5 * doy + 2) div 153;
          d = doy - (153 * mp + 2) div 5 + 1;
          m = (if mp < 10 then mp + 3 else mp - 9);
          y = yoe + era * 400 + (if m \<le> 2 then 1 else 0)
      in (y, m, d))"

definition days_in_month :: "int \<Rightarrow> int \<Rightarrow> int" where
  "days_in_month y m =
     (if m = 2 then (if y mod 4 = 0 \<and> (y mod 100 \<noteq> 0 \<or> y mod 400 = 0) then 29 else 28)
      else if m = 4 \<or> m = 6 \<or> m = 9 \<or> m = 11 then 30 else 31)"

definition digit_val :: "char \<Rightarrow> int option" where
  "digit_val ch = (let n = (of_char ch :: nat) in if 48 \<le> n \<and> n \<le> 57 then Some (int n - 48) else None)"

fun number :: "int \<Rightarrow> string \<Rightarrow> int option" where
  "number acc [] = Some acc"
| "number acc (ch # s) = (case digit_val ch of None \<Rightarrow> None | Some v \<Rightarrow> number (10 * acc + v) s)"

definition iso_parse :: "date \<Rightarrow> int option" where
  "iso_parse s =
     (if length s = 10 \<and> s ! 4 = CHR ''-'' \<and> s ! 7 = CHR ''-''
      then (case (number 0 (take 4 s), number 0 (take 2 (drop 5 s)), number 0 (drop 8 s)) of
              (Some y, Some m, Some d) \<Rightarrow>
                if 1 \<le> y \<and> 1 \<le> m \<and> m \<le> 12 \<and> 1 \<le> d \<and> d \<le> days_in_month y m
                then Some (days (days_from_civil y m d)) else None
            | _ \<Rightarrow> None)
      else None)"

definition pad :: "nat \<Rightarrow> string \<Rightarrow> string" where
  "pad n s = replicate (n - length s) (CHR ''0'') @ s"

definition iso_format :: "int \<Rightarrow> date" where
  "iso_format t =
     (case civil_from_days (t div 86400) of
        (y, m, d) \<Rightarrow> pad 4 (py_str_int y) @ ''-'' @ pad 2 (py_str_int m) @ ''-'' @ pad 2 (py_str_int d))"

definition iso_calendar :: calendar where
  "iso_calendar = \<lparr>parse_date = iso_parse, format_date = iso_format\<rparr>"

text \<open>
  An outside world without state, in which every endpoint gives the same answer to every
  call (\<open>None\<close>: the API is unavailable) and the day is 2024-03-01.
\<close>

definition fixed_env :: "activity page option \<Rightarrow> plan page option \<Rightarrow> feedback page option \<Rightarrow> unit env" where
  "fixed_env a p f =
     \<lparr>api_get_activities = (\<lambda>start end limit w. (a, w)),
      api_get_plans = (\<lambda>start game_id w. (p, w)),
      api_get_feedback = (\<lambda>start end w. (f, w)),
      utc_now = (\<lambda>w. ''2024-03-01T12:00:00+00:00''),
      utc_today = (\<lambda>w. ''2024-03-01'')\<rparr>"

text \<open>Result lists in descending order of their sort keys.\<close>

definition descending :: "int list \<Rightarrow> bool" where
  "descending ks = sorted_wrt (\<lambda>a b. a \<ge> b) ks"

text \<open>The items of what a fetch returned; none when it raised.\<close>

definition returned_items :: "(py_error + 'r page) \<times> cache \<times> 'w \<Rightarrow> 'r list" where
  "returned_items res = (case fst res of Inl e \<Rightarrow> [] | Inr page \<Rightarrow> pg_items page)"

section \<open>Verification: the Interval Merger and the Gap Detector\<close>

lemma merge_loop_inv:
  assumes "sorted_wrt (\<lambda>a b. snd a < fst b) (ms @ [l])"
    and "sorted (map fst (ms @ [l]))"
    and "sorted (map fst rest)"
    and "\<forall>r\<in>set rest. fst l \<le> fst r"
  shows "sorted_wrt (\<lambda>a b. snd a < fst b) (merge_loop (ms @ [l]) rest)
       \<and> sorted (map fst (merge_loop (ms @ [l]) rest))"
  using assms
proof (induction rest arbitrary: ms l)
  case Nil
  then show ?case by simp
next
  case (Cons r rest)
  obtain s e where r: "r = (s, e)" by (cases r)
  show ?case
  proof (cases "s \<le> snd l")
    case True
    have a: "sorted_wrt (\<lambda>a b. snd a < fst b) (ms @ [(fst l, max (snd l) e)])"
      using Cons.prems(1) by (simp add: sorted_wrt_append)
    have b: "sorted (map fst (ms @ [(fst l, max (snd l) e)]))"
      using Cons.prems(2) by simp
    have c: "sorted (map fst rest)" using Cons.prems(3) by simp
    have d: "\<forall>r\<in>set rest. fst (fst l, max (snd l) e) \<le> fst r"
      using Cons.prems(4) by simp
    from Cons.IH[OF a b c d] True r show ?thesis by simp
  next
    case False
    have ls: "fst l \<le> s" using Cons.prems(4) r by simp
    have a: "sorted_wrt (\<lambda>a b. snd a < fst b) ((ms @ [l]) @ [(s, e)])"
      using Cons.prems(1) False ls
      by (auto simp add: sorted_wrt_append)
    have b: "sorted (map fst ((ms @ [l]) @ [(s, e)]))"
      using Cons.prems(2) ls by (auto simp add: sorted_append)
    have c: "sorted (map fst rest)" using Cons.prems(3) by simp
    have d: "\<forall>r\<in>set rest. fst (s, e) \<le> fst r"
      using Cons.prems(3) r by simp
    from Cons.IH[OF a b c d] False r show ?thesis by simp
  qed
qed

lemma merge_loop_separated_id:
  "sorted_wrt (\<lambda>a b. snd a < fst b) (l # rest) \<Longrightarrow> merge_loop (ms @ [l]) rest = ms @ l # rest"
proof (induction rest arbitrary: ms l)
  case Nil
  then show ?case by simp
next
  case (Cons r rest)
  obtain s e where r: "r = (s, e)" by (cases r)
  have "\<not> s \<le> snd l" using Cons.prems r by auto
  moreover have "sorted_wrt (\<lambda>a b. snd a < fst b) (r # rest)" using Cons.prems by simp
  from Cons.IH[OF this, of "ms @ [l]"] have "merge_loop ((ms @ [l]) @ [r]) rest = (ms @ [l]) @ r # rest" .
  ultimately show ?case using r by simp
qed

lemma merge_ranges_inv:
  "sorted_wrt (\<lambda>a b. snd a < fst b) (merge_ranges rs) \<and> sorted (map fst (merge_ranges rs))"
proof (cases "rs = []")
  case True
  then show ?thesis by (simp add: merge_ranges_def)
next
  case False
  then have "sort_key fst rs \<noteq> []" by (metis length_sort length_0_conv)
  then obtain x xs where sx: "sort_key fst rs = x # xs" by (cases "sort_key fst rs") auto
  have "sorted (map fst (sort_key fst rs))" by (rule sorted_sort_key)
  with sx have s: "sorted (map fst xs)" and le: "\<forall>r\<in>set xs. fst x \<le> fst r" by auto
  have "sorted_wrt (\<lambda>a b. snd a < fst b) (merge_loop ([] @ [x]) xs)
       \<and> sorted (map fst (merge_loop ([] @ [x]) xs))"
    by (rule merge_loop_inv) (use s le in auto)
  with False sx show ?thesis by (simp add: merge_ranges_def)
qed

lemma merge_ranges_fixpoint:
  assumes "sorted_wrt (\<lambda>a b. snd a < fst b) rs" and "sorted (map fst rs)"
  shows "merge_ranges rs = rs"
proof (cases rs)
  case Nil
  then show ?thesis by (simp add: merge_ranges_def)
next
  case (Cons x xs)
  have "sort_key fst rs = rs" using assms(2) by (rule sort_key_id_if_sorted)
  moreover have "merge_loop ([] @ [x]) xs = [] @ x # xs"
    using assms(1) Cons by (intro merge_loop_separated_id) simp
  ultimately show ?thesis using Cons by (simp add: merge_ranges_def)
qed

text \<open>
  Claim C3. The Interval Merger is idempotent: merging the result of a merge returns it
  unchanged, for every list of ranges (the equality is of the lists, so of the sets too).
\<close>

theorem merge_ranges_idempotent: "merge_ranges (merge_ranges R) = merge_ranges R"
  using merge_ranges_inv[of R] by (intro merge_ranges_fixpoint) auto

lemma gaps_loop_mono: "set gaps \<subseteq> set (gaps_loop e gaps c rest)"
proof (induction rest arbitrary: gaps c)
  case Nil
  then show ?case by auto
next
  case (Cons r rest)
  obtain rs re where r: "r = (rs, re)" by (cases r)
  let ?g' = "(if rs > c then (let gap_end = min rs e in if c < gap_end then gaps @ [(c, gap_end)] else gaps) else gaps)"
  have "set gaps \<subseteq> set ?g'" by (auto simp: Let_def)
  also have "\<dots> \<subseteq> set (gaps_loop e ?g' (max c re) rest)" by (rule Cons.IH)
  finally show ?case using r by (simp add: Let_def)
qed

lemma gaps_loop_cover:
  "(\<forall>x. c < x \<and> x \<le> e \<longrightarrow>
       (\<exists>g\<in>set (gaps_loop e gaps c rest). in_range x g) \<or> (\<exists>r\<in>set rest. in_range x r))
   \<and> (c < e \<longrightarrow>
       (\<exists>g\<in>set (gaps_loop e gaps c rest). in_range c g) \<or> (\<exists>r\<in>set rest. in_range c r))"
proof (induction rest arbitrary: gaps c)
  case Nil
  then show ?case by (auto simp: in_range_def)
next
  case (Cons r rest)
  obtain rs re where r: "r = (rs, re)" by (cases r)
  define g' where "g' = (if rs > c then (let gap_end = min rs e in if c < gap_end then gaps @ [(c, gap_end)] else gaps) else gaps)"
  define c' where "c' = max c re"
  have res: "gaps_loop e gaps c (r # rest) = gaps_loop e g' c' rest"
    by (simp add: r g'_def c'_def Let_def)
  have sub: "set g' \<subseteq> set (gaps_loop e g' c' rest)" by (rule gaps_loop_mono)
  note IH = Cons.IH[of c' g']
  have newgap: "c < rs \<Longrightarrow> c < e \<Longrightarrow> (c, min rs e) \<in> set g'"
    by (auto simp: g'_def Let_def)
  have A: "(\<exists>g\<in>set (gaps_loop e g' c' rest). in_range x g) \<or> (\<exists>r\<in>set (r # rest). in_range x r)"
    if x: "c < x" "x \<le> e" for x
  proof (cases "c' < x")
    case True
    with IH x show ?thesis by auto
  next
    case False
    then have xre: "x \<le> re" using x by (auto simp: c'_def max_def split: if_splits)
    show ?thesis
    proof (cases "rs \<le> x")
      case True
      with xre r show ?thesis by (auto simp: in_range_def)
    next
      case False
      then have "c < rs" "c < e" using x by auto
      from newgap[OF this] sub have "(c, min rs e) \<in> set (gaps_loop e g' c' rest)" by auto
      moreover have "in_range x (c, min rs e)" using x False by (auto simp: in_range_def)
      ultimately show ?thesis by blast
    qed
  qed
  have B: "(\<exists>g\<in>set (gaps_loop e g' c' rest). in_range c g) \<or> (\<exists>r\<in>set (r # rest). in_range c r)"
    if ce: "c < e"
  proof (cases "c < rs")
    case True
    from newgap[OF this ce] sub have "(c, min rs e) \<in> set (gaps_loop e g' c' rest)" by auto
    moreover have "in_range c (c, min rs e)" using True ce by (auto simp: in_range_def)
    ultimately show ?thesis by blast
  next
    case False
    show ?thesis
    proof (cases "c \<le> re")
      case True
      with False r show ?thesis by (auto simp: in_range_def)
    next
      case False
      then have "c' = c" by (simp add: c'_def max_def)
      with IH ce show ?thesis by auto
    qed
  qed
  show ?case unfolding res using A B by blast
qed

lemma gaps_loop_sound:
  "sorted (map fst rest) \<Longrightarrow> g \<in> set (gaps_loop e gaps c rest) \<Longrightarrow>
   g \<in> set gaps \<or> (c \<le> fst g \<and> fst g < snd g \<and> snd g \<le> e
       \<and> (\<forall>r\<in>set rest. snd g \<le> fst r \<or> snd r \<le> fst g))"
proof (induction rest arbitrary: gaps c)
  case Nil
  then show ?case by (auto split: if_splits)
next
  case (Cons r rest)
  obtain rs re where r: "r = (rs, re)" by (cases r)
  define g' where "g' = (if rs > c then (let gap_end = min rs e in if c < gap_end then gaps @ [(c, gap_end)] else gaps) else gaps)"
  define c' where "c' = max c re"
  have res: "gaps_loop e gaps c (r # rest) = gaps_loop e g' c' rest"
    by (simp add: r g'_def c'_def Let_def)
  have srt: "sorted (map fst rest)" and le: "\<forall>q\<in>set rest. rs \<le> fst q"
    using Cons.prems(1) r by auto
  from Cons.prems(2) have "g \<in> set (gaps_loop e g' c' rest)" by (simp add: res)
  from Cons.IH[OF srt this]
  consider (old) "g \<in> set gaps" | (new) "g \<in> set g'" "g \<notin> set gaps"
    | (later) "c' \<le> fst g" "fst g < snd g" "snd g \<le> e" "\<forall>r\<in>set rest. snd g \<le> fst r \<or> snd r \<le> fst g"
    by blast
  then show ?case
  proof cases
    case old
    then show ?thesis by simp
  next
    case new
    then have g: "g = (c, min rs e)" and lt: "c < min rs e"
      by (auto simp: g'_def Let_def split: if_splits)
    have "\<forall>q\<in>set (r # rest). snd g \<le> fst q" using le g r by (fastforce simp: min_le_iff_disj)
    with g lt show ?thesis by auto
  next
    case later
    have "c \<le> fst g" using later(1) by (simp add: c'_def)
    moreover have "snd r \<le> fst g" using later(1) r by (simp add: c'_def)
    ultimately show ?thesis using later by auto
  qed
qed

text \<open>
  Claim C1. For a request \<open>[start, end]\<close> with \<open>start < end\<close> and any list of fetched
  ranges: every day of the request lies in a gap or in a fetched range, no gap overlaps
  a fetched range, and every gap has its start strictly before its end.
\<close>

theorem detect_gaps_complete:
  assumes "start < end"
  shows "(\<forall>x. start \<le> x \<and> x \<le> end \<longrightarrow>
            (\<exists>g\<in>set (detect_gaps ranges start end). in_range x g) \<or> (\<exists>r\<in>set ranges. in_range x r))
       \<and> (\<forall>g\<in>set (detect_gaps ranges start end). \<forall>r\<in>set ranges. \<not> overlaps g r)
       \<and> (\<forall>g\<in>set (detect_gaps ranges start end). fst g < snd g)"
proof (cases "ranges = []")
  case True
  with assms show ?thesis by (auto simp: detect_gaps_def in_range_def)
next
  case False
  let ?sr = "sort_key fst ranges"
  have dg: "detect_gaps ranges start end = gaps_loop end [] start ?sr"
    using False by (simp add: detect_gaps_def)
  have cov: "(\<exists>g\<in>set (gaps_loop end [] start ?sr). in_range x g) \<or> (\<exists>r\<in>set ranges. in_range x r)"
    if "start \<le> x" "x \<le> end" for x
    using gaps_loop_cover[of start "end" "[]" ?sr] that assms
    by (cases "x = start") auto
  have snd: "start \<le> fst g \<and> fst g < snd g \<and> snd g \<le> end
       \<and> (\<forall>r\<in>set ranges. snd g \<le> fst r \<or> snd r \<le> fst g)"
    if "g \<in> set (gaps_loop end [] start ?sr)" for g
    using gaps_loop_sound[OF _ that] by (simp add: sorted_sort_key)
  show ?thesis unfolding dg using cov snd by (fastforce simp: overlaps_def)
qed

theorem detect_gaps_complete_witness:
  "''2024-01-01'' < ''2024-01-20''
   \<and> detect_gaps [(''2024-01-01'', ''2024-01-10'')] ''2024-01-01'' ''2024-01-20''
       = [(''2024-01-10'', ''2024-01-20'')]
   \<and> in_range ''2024-01-15'' (''2024-01-10'', ''2024-01-20'')
   \<and> \<not> overlaps (''2024-01-10'', ''2024-01-20'') (''2024-01-01'', ''2024-01-10'')
   \<and> ''2024-01-10'' < ''2024-01-20''"
proof -
  have lt: "''2024-01-01'' < ''2024-01-20''" by simp
  have dg: "detect_gaps [(''2024-01-01'', ''2024-01-10'')] ''2024-01-01'' ''2024-01-20''
       = [(''2024-01-10'', ''2024-01-20'')]"
    by (simp add: detect_gaps_def)
  from detect_gaps_complete[OF lt, of "[(''2024-01-01'', ''2024-01-10'')]"]
  have "\<not> overlaps (''2024-01-10'', ''2024-01-20'') (''2024-01-01'', ''2024-01-10'')"
    and "''2024-01-10'' < ''2024-01-20''"
    unfolding dg by simp_all
  with lt dg show ?thesis by (simp add: in_range_def)
qed

end
